theory Spec2Isabelle
  imports Complex_Main "HOL-Library.Word"
begin

section \<open>BasicMotorControl.c: LQG speed controller with block commutation\<close>

text \<open>
  A shallow embedding of \<^verbatim>\<open>PMSMx/BasicMotorControl.c\<close>. The file's statics, the
  special-function registers and the port pins it touches are the fields of one record;
  every C function is a function from that record to the updated record.

  Numbers. \<^verbatim>\<open>uint16_t\<close> and \<^verbatim>\<open>int16_t\<close> are \<open>16 word\<close>, read with \<open>unat\<close> and
  \<open>sint\<close>; the 32-bit index counter is a \<open>32 word\<close>. The C \<^verbatim>\<open>float\<close> and
  \<^verbatim>\<open>double\<close> values are idealised as \<open>real\<close>: the arithmetic is exact, there is
  no rounding, no infinity and no NaN. What is proved below is therefore about which
  operands are combined in which order, not about rounding error.
\<close>

subsection \<open>Data\<close>

text \<open>
  The second argument of \<^verbatim>\<open>TrapUpdate\<close> is a \<^verbatim>\<open>uint16_t\<close> compared against the
  macros \<^verbatim>\<open>CW\<close> and \<^verbatim>\<open>CCW\<close>, which come from a header that is not part of the
  sources at hand. Both callers in the file pass one of the two macros, so the argument is
  modelled by the two-valued type below.
\<close>

datatype direction = CW | CCW

datatype phase = A | B | C

record state =
  u :: real                  \<comment> \<open>\<^verbatim>\<open>static float u\<close>\<close>
  x_hat :: "nat \<Rightarrow> real"       \<comment> \<open>\<^verbatim>\<open>static float x_hat[3][1]\<close>, \<open>x_hat s i\<close> is \<^verbatim>\<open>x_hat[i][0]\<close>\<close>
  x_dummy :: "nat \<Rightarrow> real"     \<comment> \<open>\<^verbatim>\<open>static float x_dummy[3][1]\<close>\<close>
  out :: string              \<comment> \<open>\<^verbatim>\<open>static uint8_t out[56]\<close>, the text last printed into it\<close>
  INDX1CNT :: "32 word"      \<comment> \<open>the QEI1 index counter\<close>
  PTPER :: "16 word"         \<comment> \<open>PWM period register, the largest duty value\<close>
  HALL1 :: bool
  HALL2 :: bool
  HALL3 :: bool
  GH_A_DC :: "16 word"
  GL_A_DC :: "16 word"
  GH_B_DC :: "16 word"
  GL_B_DC :: "16 word"
  GH_C_DC :: "16 word"
  GL_C_DC :: "16 word"
  LED1 :: bool
  LED2 :: bool
  LED3 :: bool
  LED4 :: bool
  CNIF :: bool               \<comment> \<open>\<^verbatim>\<open>IFS1bits.CNIF\<close>\<close>
  QEI1IF :: bool             \<comment> \<open>\<^verbatim>\<open>IFS3bits.QEI1IF\<close>\<close>
  uart2 :: "string list"     \<comment> \<open>the transfers handed to \<^verbatim>\<open>DMA0_UART2_Transfer\<close>, oldest first\<close>

subsection \<open>Commutation: \<^verbatim>\<open>TrapUpdate\<close>\<close>

text \<open>
  Lines 177 to 309. The three hall pins are read once per call here; the C code reads the
  pins again in every condition of the chain, which only differs when a pin changes while
  the function runs.
\<close>

definition TrapUpdate :: "16 word \<Rightarrow> direction \<Rightarrow> state \<Rightarrow> state" where
  "TrapUpdate torque0 direction s =
    (let torque = (if torque0 > PTPER s then PTPER s else torque0) in
     case direction of
       CW \<Rightarrow>
        (if HALL1 s \<and> HALL2 s \<and> \<not> HALL3 s then
           s\<lparr>GH_A_DC := 0, GL_A_DC := 0, GH_B_DC := torque, GL_B_DC := 0,
             GH_C_DC := 0, GL_C_DC := torque, LED1 := True, LED2 := True, LED3 := False\<rparr>
         else if \<not> HALL1 s \<and> HALL2 s \<and> \<not> HALL3 s then
           s\<lparr>GH_A_DC := 0, GL_A_DC := torque, GH_B_DC := torque, GL_B_DC := 0,
             GH_C_DC := 0, GL_C_DC := 0, LED1 := False, LED2 := True, LED3 := False\<rparr>
         else if \<not> HALL1 s \<and> HALL2 s \<and> HALL3 s then
           s\<lparr>GH_A_DC := 0, GL_A_DC := torque, GH_B_DC := 0, GL_B_DC := 0,
             GH_C_DC := torque, GL_C_DC := 0, LED1 := False, LED2 := True, LED3 := True\<rparr>
         else if \<not> HALL1 s \<and> \<not> HALL2 s \<and> HALL3 s then
           s\<lparr>GH_A_DC := 0, GL_A_DC := 0, GH_B_DC := 0, GL_B_DC := torque,
             GH_C_DC := torque, GL_C_DC := 0, LED1 := False, LED2 := False, LED3 := True\<rparr>
         else if HALL1 s \<and> \<not> HALL2 s \<and> HALL3 s then
           s\<lparr>GH_A_DC := torque, GL_A_DC := 0, GH_B_DC := 0, GL_B_DC := torque,
             GH_C_DC := 0, GL_C_DC := 0, LED1 := True, LED2 := False, LED3 := True\<rparr>
         else if HALL1 s \<and> \<not> HALL2 s \<and> \<not> HALL3 s then
           s\<lparr>GH_A_DC := torque, GL_A_DC := 0, GH_B_DC := 0, GL_B_DC := 0,
             GH_C_DC := 0, GL_C_DC := torque, LED1 := True, LED2 := False, LED3 := False\<rparr>
         else s)
     | CCW \<Rightarrow>
        (if HALL1 s \<and> HALL2 s \<and> \<not> HALL3 s then
           s\<lparr>GH_A_DC := 0, GL_A_DC := 0, GH_B_DC := 0, GL_B_DC := torque,
             GH_C_DC := torque, GL_C_DC := 0, LED1 := True, LED2 := True, LED3 := False\<rparr>
         else if \<not> HALL1 s \<and> HALL2 s \<and> \<not> HALL3 s then
           s\<lparr>GH_A_DC := torque, GL_A_DC := 0, GH_B_DC := 0, GL_B_DC := torque,
             GH_C_DC := 0, GL_C_DC := 0, LED1 := False, LED2 := True, LED3 := False\<rparr>
         else if \<not> HALL1 s \<and> HALL2 s \<and> HALL3 s then
           s\<lparr>GH_A_DC := torque, GL_A_DC := 0, GH_B_DC := 0, GL_B_DC := 0,
             GH_C_DC := 0, GL_C_DC := torque, LED1 := False, LED2 := True, LED3 := True\<rparr>
         else if \<not> HALL1 s \<and> \<not> HALL2 s \<and> HALL3 s then
           s\<lparr>GH_A_DC := 0, GL_A_DC := 0, GH_B_DC := torque, GL_B_DC := 0,
             GH_C_DC := 0, GL_C_DC := torque, LED1 := False, LED2 := False, LED3 := True\<rparr>
         else if HALL1 s \<and> \<not> HALL2 s \<and> HALL3 s then
           s\<lparr>GH_A_DC := 0, GL_A_DC := torque, GH_B_DC := torque, GL_B_DC := 0,
             GH_C_DC := 0, GL_C_DC := 0, LED1 := True, LED2 := False, LED3 := True\<rparr>
         else if HALL1 s \<and> \<not> HALL2 s \<and> \<not> HALL3 s then
           s\<lparr>GH_A_DC := 0, GL_A_DC := torque, GH_B_DC := 0, GL_B_DC := 0,
             GH_C_DC := torque, GL_C_DC := 0, LED1 := True, LED2 := False, LED3 := False\<rparr>
         else s))"

text \<open>Reading the six duty registers by phase, and the hall code of a state.\<close>

fun high_duty :: "state \<Rightarrow> phase \<Rightarrow> 16 word" where
  "high_duty s A = GH_A_DC s"
| "high_duty s B = GH_B_DC s"
| "high_duty s C = GH_C_DC s"

fun low_duty :: "state \<Rightarrow> phase \<Rightarrow> 16 word" where
  "low_duty s A = GL_A_DC s"
| "low_duty s B = GL_B_DC s"
| "low_duty s C = GL_C_DC s"

definition sector :: "state \<Rightarrow> bool \<times> bool \<times> bool" where
  "sector s = (HALL1 s, HALL2 s, HALL3 s)"

text \<open>The six hall codes that \<^verbatim>\<open>TrapUpdate\<close> tests for, in the order of its chain.\<close>

definition valid_sectors :: "(bool \<times> bool \<times> bool) list" where
  "valid_sectors =
    [(True, True, False), (False, True, False), (False, True, True),
     (False, False, True), (True, False, True), (True, False, False)]"

definition valid_sector :: "state \<Rightarrow> bool" where
  "valid_sector s = (sector s \<in> set valid_sectors)"

text \<open>The magnitude that reaches the registers: line 179 to 181.\<close>

definition clamped :: "16 word \<Rightarrow> state \<Rightarrow> 16 word" where
  "clamped torque s = (if torque > PTPER s then PTPER s else torque)"

text \<open>The phases that carry a nonzero duty on either leg.\<close>

definition active_phases :: "state \<Rightarrow> phase list" where
  "active_phases s = filter (\<lambda>p. high_duty s p \<noteq> 0 \<or> low_duty s p \<noteq> 0) [A, B, C]"

subsection \<open>What the toolchain fixes\<close>

text \<open>
  Two things the code uses are fixed outside the file: the macro \<^verbatim>\<open>PI\<close>, and the result
  of converting a floating-point value to \<^verbatim>\<open>uint16_t\<close> when the truncated value does
  not fit, which C leaves undefined. Both are parameters of the model. Every theorem that
  is stated for an arbitrary \<open>pf\<close> holds whatever the toolchain does there.
\<close>

record platform =
  PI :: real
  cast_out_of_range :: "real \<Rightarrow> 16 word"

definition trunc_toward_zero :: "real \<Rightarrow> int" where
  "trunc_toward_zero x = (if 0 \<le> x then \<lfloor>x\<rfloor> else \<lceil>x\<rceil>)"

text \<open>
  The cast \<^verbatim>\<open>(uint16_t) x\<close> of a floating-point \<open>x\<close>: the fraction is discarded, and
  the result is that integer when it lies in 0 to 65535.
\<close>

definition to_uint16 :: "platform \<Rightarrow> real \<Rightarrow> 16 word" where
  "to_uint16 pf x =
    (if -1 < x \<and> x < 65536 then word_of_int (trunc_toward_zero x)
     else cast_out_of_range pf x)"

text \<open>
  A platform on which the out-of-range conversion goes through a wider integer and keeps
  its low 16 bits, the usual lowering on a 16-bit target.
\<close>

definition wrapping :: platform where
  "wrapping = \<lparr>PI = 3.14159265358979, cast_out_of_range = (\<lambda>x. word_of_int (trunc_toward_zero x))\<rparr>"

subsection \<open>The constants of the regulator\<close>

definition Ts :: real where
  "Ts = 0.0003333"

definition K_reg :: "real list list" where
  "K_reg =
    [[0.7639, -0.358, -0.5243],
     [0.2752, -0.1471, -0.55],
     [-0.2592, 0.4365, 0.6546]]"

definition L :: "real list list" where
  "L = [[0.0002849], [-0.00008373], [-0.001217]]"

definition K :: "real list list" where
  "K = [[-0.4137, -0.6805, 0.744]]"

subsection \<open>The sampler: \<^verbatim>\<open>Counts2RadSec\<close>\<close>

text \<open>Lines 158 to 161: \<^verbatim>\<open>((speed / (512.0)) * 2 * PI) / Ts\<close> on an \<^verbatim>\<open>int16_t\<close>.\<close>

definition Counts2RadSec :: "platform \<Rightarrow> 16 word \<Rightarrow> real" where
  "Counts2RadSec pf speed = ((real_of_int (sint speed) / 512) * 2 * PI pf) / Ts"

subsection \<open>Telemetry\<close>

definition digit :: "nat \<Rightarrow> char" where
  "digit d = ''0123456789'' ! d"

fun show_nat :: "nat \<Rightarrow> string" where
  "show_nat n = (if n < 10 then [digit n] else show_nat (n div 10) @ [digit (n mod 10)])"

declare show_nat.simps [simp del]

definition show_int :: "int \<Rightarrow> string" where
  "show_int i = (if i < 0 then CHR ''-'' # show_nat (nat (- i)) else show_nat (nat i))"

text \<open>
  \<^verbatim>\<open>sprintf((char *) out, "%i,%u\r\n", indexCount, v)\<close> with an \<^verbatim>\<open>int16_t\<close> and a
  \<^verbatim>\<open>uint16_t\<close> argument: the text written.
\<close>

definition sprintf_iu :: "16 word \<Rightarrow> 16 word \<Rightarrow> string" where
  "sprintf_iu i v = show_int (sint i) @ '','' @ show_nat (unat v) @ [CHR 0x0D, CHR 0x0A]"

text \<open>
  Modelled from the spec: \<^verbatim>\<open>DMA0_UART2_Transfer\<close> is defined in the repository's
  \<^verbatim>\<open>DMA_Transfer.c\<close>, which is not among the sources at hand. The spec gives its
  contract as a fire-and-forget hand-off of the first \<open>len\<close> bytes of the buffer.
\<close>

definition DMA0_UART2_Transfer :: "16 word \<Rightarrow> string \<Rightarrow> state \<Rightarrow> state" where
  "DMA0_UART2_Transfer len buf s = s\<lparr>uart2 := uart2 s @ [take (unat len) buf]\<rparr>"

subsection \<open>The periodic step: \<^verbatim>\<open>SpeedControlStep\<close>\<close>

text \<open>
  Lines 136 to 144, assignment by assignment: the three rows into \<^verbatim>\<open>x_dummy\<close>, the
  copy into \<^verbatim>\<open>x_hat\<close>, then \<^verbatim>\<open>u\<close>.
\<close>

definition observer_update :: "real \<Rightarrow> state \<Rightarrow> state" where
  "observer_update theta_dot s =
    (let s = s\<lparr>x_dummy := (x_dummy s)(0 :=
               (x_hat s 0 * K_reg ! 0 ! 0) + (x_hat s 1 * K_reg ! 0 ! 1)
                 + (x_hat s 2 * K_reg ! 0 ! 2) + (L ! 0 ! 0 * theta_dot))\<rparr>;
         s = s\<lparr>x_dummy := (x_dummy s)(1 :=
               (x_hat s 1 * K_reg ! 1 ! 0) + (x_hat s 1 * K_reg ! 1 ! 1)
                 + (x_hat s 2 * K_reg ! 1 ! 2) + (L ! 1 ! 0 * theta_dot))\<rparr>;
         s = s\<lparr>x_dummy := (x_dummy s)(2 :=
               (x_hat s 2 * K_reg ! 2 ! 0) + (x_hat s 1 * K_reg ! 2 ! 1)
                 + (x_hat s 2 * K_reg ! 2 ! 2) + (L ! 2 ! 0 * theta_dot))\<rparr>;
         s = s\<lparr>x_hat := (x_hat s)(0 := x_dummy s 0)\<rparr>;
         s = s\<lparr>x_hat := (x_hat s)(1 := x_dummy s 1)\<rparr>;
         s = s\<lparr>x_hat := (x_hat s)(2 := x_dummy s 2)\<rparr>
     in s\<lparr>u := -1 * ((K ! 0 ! 0 * x_hat s 0) + (K ! 0 ! 1 * x_hat s 1)
                         + (K ! 0 ! 2 * x_hat s 2))\<rparr>)"

text \<open>Lines 152 to 155: the telemetry line, its hand-off, and the toggled LED.\<close>

definition report :: "platform \<Rightarrow> 16 word \<Rightarrow> state \<Rightarrow> state" where
  "report pf indexCount s =
    (let s = s\<lparr>out := sprintf_iu indexCount (to_uint16 pf (x_hat s 2 * 10000))\<rparr>;
         s = DMA0_UART2_Transfer (word_of_nat (length (out s))) (out s) s
     in s\<lparr>LED4 := \<not> LED4 s\<rparr>)"

text \<open>
  Lines 123 to 156. \<^verbatim>\<open>indexCount = (int) Read32bitQEI1IndexCounter()\<close> stores the
  32-bit counter in an \<^verbatim>\<open>int16_t\<close>, which keeps its low 16 bits;
  \<^verbatim>\<open>Write32bitQEI1IndexCounter(&w)\<close> with \<^verbatim>\<open>w.l = 0\<close> clears the counter.
\<close>

definition SpeedControlStep :: "platform \<Rightarrow> real \<Rightarrow> state \<Rightarrow> state" where
  "SpeedControlStep pf speed s =
    (let indexCount = (ucast (INDX1CNT s) :: 16 word);
         s = s\<lparr>INDX1CNT := 0\<rparr>;
         theta_dot = Counts2RadSec pf indexCount - speed;
         s = observer_update theta_dot s;
         s = (if u s < 0 then
                TrapUpdate (to_uint16 pf (-1 * u s * real (unat (PTPER s)))) CCW s
              else if u s \<ge> 0 then
                TrapUpdate (to_uint16 pf (u s * real (unat (PTPER s)))) CW s
              else s)
     in report pf indexCount s)"

subsection \<open>The interrupt handlers\<close>

text \<open>Lines 311 to 319.\<close>

definition CNInterrupt :: "platform \<Rightarrow> state \<Rightarrow> state" where
  "CNInterrupt pf s =
    (let s = (if u s < 0 then
                TrapUpdate (to_uint16 pf (-1 * u s * real (unat (PTPER s)))) CCW s
              else if u s \<ge> 0 then
                TrapUpdate (to_uint16 pf (u s * real (unat (PTPER s)))) CW s
              else s)
     in s\<lparr>CNIF := False\<rparr>)"

text \<open>Lines 321 to 324.\<close>

definition QEI1Interrupt :: "state \<Rightarrow> state" where
  "QEI1Interrupt s = s\<lparr>QEI1IF := False\<rparr>"

subsection \<open>States and formulas used in the statements\<close>

text \<open>
  The statics as the file initialises them (all zero), around given register and pin
  values.
\<close>

definition power_on :: "16 word \<Rightarrow> bool \<times> bool \<times> bool \<Rightarrow> state" where
  "power_on period halls =
    \<lparr>u = 0, x_hat = (\<lambda>_. 0), x_dummy = (\<lambda>_. 0), out = [], INDX1CNT = 0, PTPER = period,
     HALL1 = fst halls, HALL2 = fst (snd halls), HALL3 = snd (snd halls),
     GH_A_DC = 0, GL_A_DC = 0, GH_B_DC = 0, GL_B_DC = 0, GH_C_DC = 0, GL_C_DC = 0,
     LED1 = False, LED2 = False, LED3 = False, LED4 = False,
     CNIF = False, QEI1IF = False, uart2 = []\<rparr>"

text \<open>
  The observer update as the specification words it: row \<open>i\<close> of the dynamics matrix
  against the whole pre-update vector, plus the innovation term.
\<close>

definition observer_spec :: "(nat \<Rightarrow> real) \<Rightarrow> real \<Rightarrow> nat \<Rightarrow> real" where
  "observer_spec x e i =
    x 0 * K_reg ! i ! 0 + x 1 * K_reg ! i ! 1 + x 2 * K_reg ! i ! 2 + L ! i ! 0 * e"

text \<open>
  The right-hand sides of lines 136 to 138 read as functions of one vector \<open>x\<close> and the
  error \<open>e\<close>.
\<close>

definition observer_rows :: "(nat \<Rightarrow> real) \<Rightarrow> real \<Rightarrow> nat \<Rightarrow> real" where
  "observer_rows x e i =
    (if i = 0 then x 0 * K_reg ! 0 ! 0 + x 1 * K_reg ! 0 ! 1 + x 2 * K_reg ! 0 ! 2 + L ! 0 ! 0 * e
     else if i = 1 then x 1 * K_reg ! 1 ! 0 + x 1 * K_reg ! 1 ! 1 + x 2 * K_reg ! 1 ! 2 + L ! 1 ! 0 * e
     else if i = 2 then x 2 * K_reg ! 2 ! 0 + x 1 * K_reg ! 2 ! 1 + x 2 * K_reg ! 2 ! 2 + L ! 2 ! 0 * e
     else x i)"

definition feedback :: "(nat \<Rightarrow> real) \<Rightarrow> real" where
  "feedback x = -1 * (K ! 0 ! 0 * x 0 + K ! 0 ! 1 * x 1 + K ! 0 ! 2 * x 2)"

text \<open>
  The state of \<^verbatim>\<open>SpeedControlStep\<close> after line 144: the counter read and cleared, the
  observer updated, nothing dispatched yet.
\<close>

definition regulated :: "platform \<Rightarrow> real \<Rightarrow> state \<Rightarrow> state" where
  "regulated pf speed s =
     observer_update (Counts2RadSec pf (ucast (INDX1CNT s)) - speed) (s\<lparr>INDX1CNT := 0\<rparr>)"

text \<open>
  Two families of concrete states: a powered-on controller whose cached control value is
  \<open>v\<close>, and the controller after one step towards 1 rad/s with the encoder at rest.
\<close>

definition coasting :: "real \<Rightarrow> state" where
  "coasting v = (power_on 1000 (True, True, False))\<lparr>u := v\<rparr>"

definition stalled_once :: state where
  "stalled_once = SpeedControlStep wrapping 1 (power_on 1000 (True, True, False))"

section \<open>Properties\<close>

subsection \<open>Auxiliary facts\<close>

lemma valid_sector_cases:
  "valid_sector s \<longleftrightarrow> \<not> (HALL1 s = HALL2 s \<and> HALL2 s = HALL3 s)"
  by (auto simp: valid_sector_def valid_sectors_def sector_def)

lemma all_phase: "(\<forall>p::phase. P p) \<longleftrightarrow> P A \<and> P B \<and> P C"
  by (metis phase.exhaust)

lemma ex_phase: "(\<exists>p::phase. P p) \<longleftrightarrow> P A \<or> P B \<or> P C"
  by (metis phase.exhaust)

text \<open>\<^verbatim>\<open>TrapUpdate\<close> writes duty registers and LEDs only.\<close>

lemma TrapUpdate_statics:
  "u (TrapUpdate t d s) = u s" "x_hat (TrapUpdate t d s) = x_hat s"
  "x_dummy (TrapUpdate t d s) = x_dummy s" "INDX1CNT (TrapUpdate t d s) = INDX1CNT s"
  "out (TrapUpdate t d s) = out s" "uart2 (TrapUpdate t d s) = uart2 s"
  by (simp_all add: TrapUpdate_def Let_def split: direction.splits)

lemma report_statics:
  "u (report pf i s) = u s" "x_hat (report pf i s) = x_hat s"
  "x_dummy (report pf i s) = x_dummy s" "INDX1CNT (report pf i s) = INDX1CNT s"
  "out (report pf i s) = sprintf_iu i (to_uint16 pf (x_hat s 2 * 10000))"
  by (simp_all add: report_def DMA0_UART2_Transfer_def Let_def)

lemma observer_update_x_hat: "x_hat (observer_update e s) = observer_rows (x_hat s) e"
  by (rule ext) (simp add: observer_update_def observer_rows_def Let_def)

lemma observer_update_u:
  "u (observer_update e s) = feedback (x_hat (observer_update e s))"
  by (simp add: observer_update_def feedback_def Let_def)

lemma observer_update_counter: "INDX1CNT (observer_update e s) = INDX1CNT s"
  by (simp add: observer_update_def Let_def)

lemma report_duties:
  "GH_A_DC (report pf i s) = GH_A_DC s" "GL_A_DC (report pf i s) = GL_A_DC s"
  "GH_B_DC (report pf i s) = GH_B_DC s" "GL_B_DC (report pf i s) = GL_B_DC s"
  "GH_C_DC (report pf i s) = GH_C_DC s" "GL_C_DC (report pf i s) = GL_C_DC s"
  "PTPER (report pf i s) = PTPER s"
  by (simp_all add: report_def DMA0_UART2_Transfer_def Let_def)

text \<open>What one \<^verbatim>\<open>SpeedControlStep\<close> leaves in the statics and in the counter.\<close>

lemma SpeedControlStep_x_hat:
  "x_hat (SpeedControlStep pf speed s)
     = observer_rows (x_hat s) (Counts2RadSec pf (ucast (INDX1CNT s)) - speed)"
  by (simp add: SpeedControlStep_def Let_def report_statics TrapUpdate_statics
      observer_update_x_hat)

lemma SpeedControlStep_u:
  "u (SpeedControlStep pf speed s) = feedback (x_hat (SpeedControlStep pf speed s))"
  by (simp add: SpeedControlStep_def Let_def report_statics TrapUpdate_statics
      observer_update_u)

lemma SpeedControlStep_counter: "INDX1CNT (SpeedControlStep pf speed s) = 0"
  by (simp add: SpeedControlStep_def Let_def report_statics TrapUpdate_statics
      observer_update_counter)

lemma SpeedControlStep_out:
  "out (SpeedControlStep pf speed s)
     = sprintf_iu (ucast (INDX1CNT s))
         (to_uint16 pf (x_hat (SpeedControlStep pf speed s) 2 * 10000))"
  by (simp add: SpeedControlStep_def Let_def report_statics TrapUpdate_statics)

text \<open>The step seen from the state after line 144; the last \<^verbatim>\<open>else if\<close> always holds.\<close>

lemma SpeedControlStep_regulated:
  "SpeedControlStep pf speed s =
    report pf (ucast (INDX1CNT s))
     (if u (regulated pf speed s) < 0 then
        TrapUpdate (to_uint16 pf (-1 * u (regulated pf speed s)
           * real (unat (PTPER (regulated pf speed s))))) CCW (regulated pf speed s)
      else
        TrapUpdate (to_uint16 pf (u (regulated pf speed s)
           * real (unat (PTPER (regulated pf speed s))))) CW (regulated pf speed s))"
  by (simp add: SpeedControlStep_def regulated_def Let_def)

lemma Counts2RadSec_0: "Counts2RadSec pf 0 = 0"
  by (simp add: Counts2RadSec_def)

text \<open>Storing a 32-bit count in an \<^verbatim>\<open>int16_t\<close> reads it modulo \<open>2 ^ 16\<close>.\<close>

lemma sint_ucast_16:
  "sint (ucast (c :: 32 word) :: 16 word) = (sint c + 32768) mod 65536 - 32768"
proof -
  have "sint (ucast c :: 16 word) = signed_take_bit 15 (uint c)"
    by (simp add: sint_uint unsigned_ucast_eq signed_take_bit_take_bit)
  also have "\<dots> = (uint c + 32768) mod 65536 - 32768"
    by (simp add: signed_take_bit_eq_take_bit_shift take_bit_eq_mod)
  finally have lhs: "sint (ucast c :: 16 word) = (uint c + 32768) mod 65536 - 32768" .
  have "sint c = (uint c + 2147483648) mod 4294967296 - 2147483648"
    by (simp add: sint_uint signed_take_bit_eq_take_bit_shift take_bit_eq_mod)
  then have "(sint c + 32768) mod 65536
      = ((uint c + 2147483648) mod (65536 * 65536) + (- 2147450880)) mod 65536"
    by simp
  also have "\<dots> = ((uint c + 2147483648) mod (65536 * 65536) mod 65536
      + (- 2147450880) mod 65536) mod 65536"
    by (simp only: mod_add_eq)
  also have "(uint c + 2147483648) mod (65536 * 65536) mod 65536
      = (uint c + 2147483648) mod 65536"
    by (rule mod_mod_cancel) simp
  also have "((uint c + 2147483648) mod 65536 + (- 2147450880) mod 65536) mod 65536
      = (uint c + 2147483648 + (- 2147450880)) mod 65536"
    by (simp only: mod_add_eq)
  finally have "(sint c + 32768) mod 65536 = (uint c + 32768) mod 65536"
    by (simp add: add.commute)
  with lhs show ?thesis by simp
qed

text \<open>The concrete states.\<close>

lemma coasting_fields:
  "u (coasting v) = v" "PTPER (coasting v) = 1000" "INDX1CNT (coasting v) = 0"
  by (simp_all add: coasting_def power_on_def)

lemma regulated_coasting:
  "u (regulated pf speed (coasting v)) = - (966332865 / 1000000000000) * speed"
  "PTPER (regulated pf speed (coasting v)) = 1000"
  by (simp_all add: regulated_def observer_update_def Let_def coasting_def power_on_def
      Counts2RadSec_0 K_def L_def)

lemma regulated_overdriven:
  "u (regulated wrapping (-68300) (power_on 1000 (True, True, False)))
     = 132001069359 / 2000000000"
  "PTPER (regulated wrapping (-68300) (power_on 1000 (True, True, False))) = 1000"
  "HALL1 (regulated wrapping (-68300) (power_on 1000 (True, True, False)))"
  "HALL2 (regulated wrapping (-68300) (power_on 1000 (True, True, False)))"
  "\<not> HALL3 (regulated wrapping (-68300) (power_on 1000 (True, True, False)))"
  by (simp_all add: regulated_def observer_update_def Let_def power_on_def Counts2RadSec_0
      K_def L_def)

lemma x_hat_stalled_once:
  "x_hat stalled_once 0 = - 0.0002849" "x_hat stalled_once (Suc 0) = 0.00008373"
  "x_hat stalled_once 2 = 0.001217" "INDX1CNT stalled_once = 0"
  by (simp_all add: stalled_once_def SpeedControlStep_x_hat SpeedControlStep_counter
      observer_rows_def power_on_def Counts2RadSec_0 L_def)

text \<open>Conversions that are in range, and one that is not.\<close>

lemma to_uint16_small:
  "to_uint16 pf 500 = 500" "to_uint16 pf 0 = 0"
  "to_uint16 pf (193266573 / 200000000) = 0"
  by (simp_all add: to_uint16_def trunc_toward_zero_def)

lemma to_uint16_66000: "to_uint16 wrapping (132001069359 / 2000000) = 464"
  by (simp add: to_uint16_def wrapping_def trunc_toward_zero_def)

subsection \<open>The commutation table\<close>

text \<open>
  C2. For every commanded torque, each of the six valid hall codes and each direction, one
  call of \<^verbatim>\<open>TrapUpdate\<close> leaves exactly this in the six duty registers: the clamped
  torque on the high side of one phase \<open>h\<close>, the clamped torque on the low side of a
  different phase \<open>l\<close>, and 0 on the four other legs, so both legs of the third phase
  are 0.
\<close>

theorem TrapUpdate_one_high_one_low:
  assumes "valid_sector s"
  shows "\<exists>h l. h \<noteq> l
     \<and> (\<forall>p. high_duty (TrapUpdate torque d s) p = (if p = h then clamped torque s else 0))
     \<and> (\<forall>p. low_duty (TrapUpdate torque d s) p = (if p = l then clamped torque s else 0))"
  using assms
  by (cases d; cases "HALL1 s"; cases "HALL2 s"; cases "HALL3 s")
     (simp_all add: valid_sector_cases TrapUpdate_def clamped_def Let_def all_phase ex_phase)

theorem TrapUpdate_one_high_one_low_witness:
  "valid_sector (power_on 1000 (True, True, False))
   \<and> (\<exists>h l. h \<noteq> l
     \<and> (\<forall>p. high_duty (TrapUpdate 1500 CW (power_on 1000 (True, True, False))) p
            = (if p = h then 1000 else 0))
     \<and> (\<forall>p. low_duty (TrapUpdate 1500 CW (power_on 1000 (True, True, False))) p
            = (if p = l then 1000 else 0)))"
proof -
  have v: "valid_sector (power_on 1000 (True, True, False))"
    by (simp add: valid_sector_cases power_on_def)
  have c: "clamped 1500 (power_on 1000 (True, True, False)) = 1000"
    by (simp add: clamped_def power_on_def)
  show ?thesis
    using v TrapUpdate_one_high_one_low [OF v, of 1500 CW] by (simp only: c simp_thms)
qed

text \<open>
  C5. On a hall code outside the six valid patterns, that is all three pins low or all
  three pins high, \<^verbatim>\<open>TrapUpdate\<close> returns the state it was given: the six duty
  registers (and everything else) keep their values, for every torque and both directions.
\<close>

theorem TrapUpdate_invalid_sector_unchanged:
  "\<not> valid_sector s \<Longrightarrow> TrapUpdate torque d s = s"
  by (cases d) (auto simp: valid_sector_cases TrapUpdate_def)

theorem TrapUpdate_invalid_sector_unchanged_witness:
  "\<not> valid_sector (power_on 1000 (False, False, False))
   \<and> TrapUpdate 700 CW (power_on 1000 (False, False, False)) = power_on 1000 (False, False, False)
   \<and> \<not> valid_sector (power_on 1000 (True, True, True))
   \<and> TrapUpdate 700 CCW (power_on 1000 (True, True, True)) = power_on 1000 (True, True, True)"
proof -
  have a: "\<not> valid_sector (power_on 1000 (False, False, False))"
    and b: "\<not> valid_sector (power_on 1000 (True, True, True))"
    by (simp_all add: valid_sector_cases power_on_def)
  show ?thesis
    using a b TrapUpdate_invalid_sector_unchanged [OF a, of 700 CW]
      TrapUpdate_invalid_sector_unchanged [OF b, of 700 CCW]
    by simp
qed

text \<open>
  C6, as stated, fails. The claim has the forward and the reverse phase pair of one hall
  code complementary, so that no pair of phases repeats across the two directions. On the
  hall code (1, 1, 0) both directions energise the same two phases, B and C.
\<close>

theorem direction_repeats_phase_pair:
  "active_phases (TrapUpdate 500 CW (power_on 1000 (True, True, False))) = [B, C]
   \<and> active_phases (TrapUpdate 500 CCW (power_on 1000 (True, True, False))) = [B, C]"
  by (simp add: active_phases_def TrapUpdate_def power_on_def Let_def)

text \<open>
  C6, amended. For each valid hall code the reverse direction drives the same two phases
  as the forward direction with the two legs exchanged: every phase's high-side duty under
  reverse is its low-side duty under forward, and the other way round.
\<close>

theorem TrapUpdate_reverse_swaps_legs:
  assumes "valid_sector s"
  shows "high_duty (TrapUpdate torque CCW s) p = low_duty (TrapUpdate torque CW s) p
       \<and> low_duty (TrapUpdate torque CCW s) p = high_duty (TrapUpdate torque CW s) p"
  using assms
  by (cases p; cases "HALL1 s"; cases "HALL2 s"; cases "HALL3 s")
     (simp_all add: valid_sector_cases TrapUpdate_def Let_def)

theorem TrapUpdate_reverse_swaps_legs_witness:
  "valid_sector (power_on 1000 (False, True, False))
   \<and> high_duty (TrapUpdate 500 CCW (power_on 1000 (False, True, False))) A = 500
   \<and> low_duty (TrapUpdate 500 CW (power_on 1000 (False, True, False))) A = 500
   \<and> low_duty (TrapUpdate 500 CCW (power_on 1000 (False, True, False))) B = 500
   \<and> high_duty (TrapUpdate 500 CW (power_on 1000 (False, True, False))) B = 500"
proof -
  have v: "valid_sector (power_on 1000 (False, True, False))"
    by (simp add: valid_sector_cases power_on_def)
  have "low_duty (TrapUpdate 500 CW (power_on 1000 (False, True, False))) A = 500"
    and "high_duty (TrapUpdate 500 CW (power_on 1000 (False, True, False))) B = 500"
    by (simp_all add: TrapUpdate_def power_on_def Let_def)
  then show ?thesis
    using v TrapUpdate_reverse_swaps_legs [OF v, of 500 A]
      TrapUpdate_reverse_swaps_legs [OF v, of 500 B]
    by simp
qed

subsection \<open>The observer\<close>

text \<open>
  Where lines 136 to 138 and the specification's update agree and where they part: row 0
  is the specified row; rows 1 and 2 multiply the first column of the dynamics matrix by
  \<^verbatim>\<open>x_hat[1]\<close> and \<^verbatim>\<open>x_hat[2]\<close> where the specification has \<^verbatim>\<open>x_hat[0]\<close>.
\<close>

lemma observer_rows_vs_spec:
  "observer_rows x e 0 = observer_spec x e 0"
  "observer_rows x e 1 = observer_spec x e 1 + (x 1 - x 0) * K_reg ! 1 ! 0"
  "observer_rows x e 2 = observer_spec x e 2 + (x 2 - x 0) * K_reg ! 2 ! 0"
  by (simp_all add: observer_rows_def observer_spec_def algebra_simps)

text \<open>
  C1 asks for \<open>x_hat'[i] = x_hat[0] * K_reg[i][0] + x_hat[1] * K_reg[i][1] +
  x_hat[2] * K_reg[i][2] + L[i] * error\<close> in every row. The code does not compute that in
  row 1: from power-on, with the encoder at rest and a target of 1 rad/s, the second call
  of \<^verbatim>\<open>SpeedControlStep\<close> leaves \<open>-0.000574894187\<close> in \<^verbatim>\<open>x_hat[1]\<close>, where the formula
  of the claim gives \<open>-0.000676341163\<close>.
\<close>

theorem row_1_reads_wrong_component:
  "x_hat (SpeedControlStep wrapping 1 stalled_once) 1 = - (574894187 / 1000000000000)
   \<and> observer_spec (x_hat stalled_once)
        (Counts2RadSec wrapping (ucast (INDX1CNT stalled_once)) - 1) 1
       = - (676341163 / 1000000000000)"
  by (simp add: SpeedControlStep_x_hat x_hat_stalled_once Counts2RadSec_0
      observer_rows_def observer_spec_def K_reg_def L_def)

text \<open>
  C4. The observer update is synchronous. After lines 136 to 144 every component of
  \<^verbatim>\<open>x_hat\<close> is the right-hand side of its line evaluated on the vector as it was before
  the update, so no freshly computed component feeds another one; \<^verbatim>\<open>u\<close> is then
  computed from the replaced vector. The same holds for a whole \<^verbatim>\<open>SpeedControlStep\<close>.
\<close>

theorem observer_update_synchronous:
  "x_hat (observer_update e s) = observer_rows (x_hat s) e
   \<and> u (observer_update e s) = feedback (observer_rows (x_hat s) e)
   \<and> x_hat (SpeedControlStep pf speed s)
       = observer_rows (x_hat s) (Counts2RadSec pf (ucast (INDX1CNT s)) - speed)
   \<and> u (SpeedControlStep pf speed s) = feedback (x_hat (SpeedControlStep pf speed s))"
  by (simp add: SpeedControlStep_def Let_def report_statics TrapUpdate_statics
      observer_update_x_hat observer_update_u)

subsection \<open>The sector-transition handler\<close>

text \<open>
  C8. \<^verbatim>\<open>_CNInterrupt\<close> reads \<^verbatim>\<open>u\<close> and dispatches the commutation; it leaves
  \<^verbatim>\<open>u\<close>, the state estimate \<^verbatim>\<open>x_hat\<close> (and its scratch copy), the encoder counter
  and the telemetry buffers as they were, so the control law is not recomputed.
\<close>

theorem CNInterrupt_frame:
  "u (CNInterrupt pf s) = u s \<and> x_hat (CNInterrupt pf s) = x_hat s
   \<and> x_dummy (CNInterrupt pf s) = x_dummy s \<and> INDX1CNT (CNInterrupt pf s) = INDX1CNT s
   \<and> out (CNInterrupt pf s) = out s \<and> uart2 (CNInterrupt pf s) = uart2 s"
  by (simp add: CNInterrupt_def TrapUpdate_statics)

subsection \<open>Dispatch: sign and magnitude\<close>

text \<open>
  C7. In the sector-transition handler and in the periodic step alike, a negative
  \<^verbatim>\<open>u\<close> is dispatched as \<^verbatim>\<open>CCW\<close> (reverse) with magnitude \<open>-u * PTPER\<close>, and
  \<^verbatim>\<open>u = 0\<close> as well as a positive \<^verbatim>\<open>u\<close> as \<^verbatim>\<open>CW\<close> (forward) with magnitude
  \<open>u * PTPER\<close>. In the periodic step \<^verbatim>\<open>u\<close> is the value just computed.
\<close>

theorem dispatch_direction:
  "(u s < 0 \<longrightarrow> CNInterrupt pf s =
       (TrapUpdate (to_uint16 pf (-1 * u s * real (unat (PTPER s)))) CCW s)\<lparr>CNIF := False\<rparr>)
   \<and> (u s = 0 \<or> 0 < u s \<longrightarrow> CNInterrupt pf s =
       (TrapUpdate (to_uint16 pf (u s * real (unat (PTPER s)))) CW s)\<lparr>CNIF := False\<rparr>)
   \<and> (u (regulated pf speed s) < 0 \<longrightarrow> SpeedControlStep pf speed s =
       report pf (ucast (INDX1CNT s))
         (TrapUpdate (to_uint16 pf (-1 * u (regulated pf speed s)
            * real (unat (PTPER (regulated pf speed s))))) CCW (regulated pf speed s)))
   \<and> (u (regulated pf speed s) = 0 \<or> 0 < u (regulated pf speed s) \<longrightarrow>
       SpeedControlStep pf speed s =
       report pf (ucast (INDX1CNT s))
         (TrapUpdate (to_uint16 pf (u (regulated pf speed s)
            * real (unat (PTPER (regulated pf speed s))))) CW (regulated pf speed s)))"
  by (auto simp: CNInterrupt_def SpeedControlStep_regulated Let_def)

theorem dispatch_direction_witness:
  "u (coasting (- (1 / 2))) < 0
   \<and> CNInterrupt wrapping (coasting (- (1 / 2)))
       = (TrapUpdate 500 CCW (coasting (- (1 / 2))))\<lparr>CNIF := False\<rparr>
   \<and> u (coasting 0) = 0
   \<and> CNInterrupt wrapping (coasting 0) = (TrapUpdate 0 CW (coasting 0))\<lparr>CNIF := False\<rparr>
   \<and> 0 < u (coasting (1 / 2))
   \<and> CNInterrupt wrapping (coasting (1 / 2))
       = (TrapUpdate 500 CW (coasting (1 / 2)))\<lparr>CNIF := False\<rparr>
   \<and> u (regulated wrapping 1 (coasting 0)) < 0
   \<and> SpeedControlStep wrapping 1 (coasting 0)
       = report wrapping 0 (TrapUpdate 0 CCW (regulated wrapping 1 (coasting 0)))
   \<and> u (regulated wrapping 0 (coasting 0)) = 0
   \<and> SpeedControlStep wrapping 0 (coasting 0)
       = report wrapping 0 (TrapUpdate 0 CW (regulated wrapping 0 (coasting 0)))
   \<and> 0 < u (regulated wrapping (- 1) (coasting 0))
   \<and> SpeedControlStep wrapping (- 1) (coasting 0)
       = report wrapping 0 (TrapUpdate 0 CW (regulated wrapping (- 1) (coasting 0)))"
  using dispatch_direction [of "coasting (- (1 / 2))" wrapping 1]
    dispatch_direction [of "coasting 0" wrapping 1]
    dispatch_direction [of "coasting 0" wrapping 0]
    dispatch_direction [of "coasting (1 / 2)" wrapping "- 1"]
    dispatch_direction [of "coasting 0" wrapping "- 1"]
  by (simp add: coasting_fields regulated_coasting to_uint16_small)

text \<open>
  The clamp of lines 179 to 181 bounds whatever torque it is given, and it saturates a
  command of at least the full period as long as the product still fits 16 bits.
\<close>

lemma clamped_le_PTPER: "clamped t s \<le> PTPER s"
  by (simp add: clamped_def not_less)

lemma clamped_saturates_in_range:
  assumes "1 \<le> v" and "v * real (unat (PTPER s)) < 65536"
  shows "clamped (to_uint16 pf (v * real (unat (PTPER s)))) s = PTPER s"
proof -
  let ?x = "v * real (unat (PTPER s))"
  have x: "real (unat (PTPER s)) \<le> ?x"
    using mult_right_mono [OF assms(1) of_nat_0_le_iff [of "unat (PTPER s)"]]
    by (simp only: mult_1_left)
  then have nonneg: "0 \<le> ?x"
    by (meson of_nat_0_le_iff order_trans)
  then have conv: "to_uint16 pf ?x = word_of_int \<lfloor>?x\<rfloor>"
    using assms(2) by (simp add: to_uint16_def trunc_toward_zero_def)
  have lo: "int (unat (PTPER s)) \<le> \<lfloor>?x\<rfloor>"
    using x by (simp add: le_floor_iff)
  have hi: "\<lfloor>?x\<rfloor> < 65536"
    using assms(2) by (simp add: floor_less_iff)
  have fl0: "0 \<le> \<lfloor>?x\<rfloor>"
    using nonneg by (simp only: zero_le_floor)
  have "uint (word_of_int \<lfloor>?x\<rfloor> :: 16 word) = \<lfloor>?x\<rfloor> mod 65536"
    by (simp add: uint_word_of_int take_bit_eq_mod)
  also have "\<dots> = \<lfloor>?x\<rfloor>"
    using fl0 hi by (intro mod_pos_pos_trivial) simp_all
  finally have "uint (word_of_int \<lfloor>?x\<rfloor> :: 16 word) = \<lfloor>?x\<rfloor>" .
  then have "uint (PTPER s) \<le> uint (word_of_int \<lfloor>?x\<rfloor> :: 16 word)"
    using lo by simp
  then have "PTPER s \<le> word_of_int \<lfloor>?x\<rfloor>"
    by (simp add: word_le_def)
  then show ?thesis
    unfolding conv clamped_def by auto
qed

text \<open>
  C3 asks that every \<^verbatim>\<open>u\<close> of magnitude above 1 is applied as the full period
  \<^verbatim>\<open>PTPER\<close>. The clamp comes after the cast to \<^verbatim>\<open>uint16_t\<close>, so it sees what the
  cast left over. From power-on with \<^verbatim>\<open>PTPER = 1000\<close>, hall code (1, 1, 0), the encoder
  at rest and a target of -68300 rad/s, the step computes \<^verbatim>\<open>u\<close> a little above 66; on a
  platform whose out-of-range cast keeps the low 16 bits, 66000 becomes 464, the clamp
  lets it pass, and the two active legs get 464 instead of 1000.
\<close>

theorem overdriven_duty_wraps:
  "1 < u (SpeedControlStep wrapping (-68300) (power_on 1000 (True, True, False)))
   \<and> PTPER (SpeedControlStep wrapping (-68300) (power_on 1000 (True, True, False))) = 1000
   \<and> GH_B_DC (SpeedControlStep wrapping (-68300) (power_on 1000 (True, True, False))) = 464
   \<and> GL_C_DC (SpeedControlStep wrapping (-68300) (power_on 1000 (True, True, False))) = 464"
  by (simp add: SpeedControlStep_regulated report_duties report_statics regulated_overdriven
      to_uint16_66000 TrapUpdate_def Let_def TrapUpdate_statics)

subsection \<open>The sampler\<close>

text \<open>
  C9. For every 16-bit displacement \<open>c\<close> the velocity estimate is
  \<open>(c / 512) * 2 * PI / Ts\<close> with \<open>Ts = 0.0003333\<close>, and the error that drives the
  observer in \<^verbatim>\<open>SpeedControlStep\<close> is that estimate minus the target speed.
\<close>

theorem Counts2RadSec_formula:
  "Counts2RadSec pf c = (real_of_int (sint c) / 512) * (2 * PI pf) / Ts
   \<and> Ts = 3333 / 10000000
   \<and> x_hat (SpeedControlStep pf speed s)
       = observer_rows (x_hat s) (Counts2RadSec pf (ucast (INDX1CNT s)) - speed)"
  by (simp add: Counts2RadSec_def Ts_def SpeedControlStep_x_hat)

text \<open>
  C10. \<^verbatim>\<open>SpeedControlStep\<close> clears the whole 32-bit counter, while the displacement
  it converts to a speed and prints into the telemetry line is the counter's low 16 bits
  read as a signed number, that is the count modulo \<open>2 ^ 16\<close> brought into
  \<open>-32768 .. 32767\<close>.
\<close>

theorem displacement_truncated_to_16_bits:
  "INDX1CNT (SpeedControlStep pf speed s) = 0
   \<and> x_hat (SpeedControlStep pf speed s)
       = observer_rows (x_hat s) (Counts2RadSec pf (ucast (INDX1CNT s)) - speed)
   \<and> out (SpeedControlStep pf speed s)
       = sprintf_iu (ucast (INDX1CNT s))
           (to_uint16 pf (x_hat (SpeedControlStep pf speed s) 2 * 10000))
   \<and> sint (ucast (INDX1CNT s) :: 16 word) = (sint (INDX1CNT s) + 32768) mod 65536 - 32768"
  by (simp add: SpeedControlStep_x_hat SpeedControlStep_counter SpeedControlStep_out
      sint_ucast_16)

text \<open>A count of 40000 in one interval is reported and used as -25536.\<close>

lemma displacement_40000:
  "sint (ucast (INDX1CNT ((coasting 0)\<lparr>INDX1CNT := 40000\<rparr>)) :: 16 word) = - 25536
   \<and> take 7 (out (SpeedControlStep pf speed ((coasting 0)\<lparr>INDX1CNT := 40000\<rparr>)))
       = ''-25536,''
   \<and> INDX1CNT (SpeedControlStep pf speed ((coasting 0)\<lparr>INDX1CNT := 40000\<rparr>)) = 0"
  by (simp add: SpeedControlStep_out SpeedControlStep_counter sprintf_iu_def show_int_def
      show_nat.simps digit_def)

end
